theory Spec2Isabelle
  imports Main
begin

section \<open>Data model (src/types/npmDocsTypes.ts)\<close>

text \<open>
  JavaScript strings are modelled as \<open>string\<close>; a character stands for one code unit
  below 256. JavaScript numbers are modelled as \<open>int\<close> where the code only ever holds
  integers (time stamps in milliseconds, TTLs in seconds, HTTP status codes); the
  arithmetic the code performs on them is exact on doubles while every magnitude stays
  below \<open>2 ^ 53\<close>. \<open>undefined\<close> and \<open>null\<close> are \<open>None\<close>.
\<close>

datatype author = AuthorName string | AuthorObject "string option" "string option" "string option"

record NpmDocumentation =
  name :: string
  version :: string
  description :: string
  homepage :: "string option"
  repository :: "string option"
  author :: "author option"
  license :: "string option"
  main :: "string option"
  keywords' :: "string list option"
  dependencies :: "(string \<times> string) list option"
  devDependencies :: "(string \<times> string) list option"
  readme :: "string option"
  readmeContent :: "string option"

text \<open>A \<open>Date\<close> holds a time value in milliseconds, or is an Invalid Date (\<open>None\<close>).\<close>

type_synonym Date = "int option"

record CacheEntry =
  packageName :: string
  documentation :: NpmDocumentation
  fetchedAt :: Date
  ttl :: int

record NpmDocServiceConfig =
  cacheTtl :: int
  dbPath :: string
  npmRegistry :: string

text \<open>The error classes of the repository, and the built-in classes the code can meet.\<close>

datatype error =
    CacheError string
  | NetworkError string
  | NotFoundError string
  | ValidationError string
  | Error string
  | RangeError string

section \<open>The world outside the two services\<close>

text \<open>
  One row of table \<open>npm_docs_cache\<close>. The table is a map from its primary key
  \<open>package_name\<close> to the other three columns.
\<close>

record row =
  col_documentation :: string
  col_fetched_at :: int
  col_ttl :: int

text \<open>The configuration object handed to \<open>axios.get\<close>, with the URL.\<close>

record request =
  url :: string
  header_Accept :: string
  header_User_Agent :: string
  timeout :: int

text \<open>
  The body of a successful response, as interface \<open>NpmsIOResponse\<close> declares it.
\<close>

record links =
  l_npm :: "string option"
  l_homepage :: "string option"
  l_repository :: "string option"
  l_bugs :: "string option"

record metadata =
  m_name :: string
  m_version :: string
  m_description :: "string option"
  m_keywords :: "string list option"
  m_author :: "string option option"
  m_license :: "string option"
  m_links :: "links option"
  m_dependencies :: "(string \<times> string) list option"
  m_devDependencies :: "(string \<times> string) list option"
  m_readme :: "string option"

record collected =
  c_metadata :: "metadata option"

record NpmsIOResponse =
  r_collected :: "collected option"

text \<open>
  What \<open>await axios.get(url, config)\<close> does: it resolves with a response whose \<open>data\<close>
  is the body (\<open>None\<close> for a body that is \<open>null\<close> or no object), or it throws. What it
  throws is an AxiosError, with its \<open>response\<close> (status and statusText) when the server
  answered, its \<open>request\<close> flag when a request was sent, and its message; or it is some
  other error, of which the code reads the message only.
\<close>

datatype axios_result =
    Resolved "NpmsIOResponse option"
  | AxiosError "(nat \<times> string) option" bool string
  | OtherError string

text \<open>
  The mutable state: the rows of the table, the faults the database will raise (each
  call into the database, \<open>prepare\<close>, \<open>get\<close> or \<open>run\<close>, takes the head of the list:
  \<open>Some m\<close> makes that call throw with message \<open>m\<close>, \<open>None\<close> and the empty list let it
  succeed), the number of clock readings made so far, and the requests sent so far.
\<close>

record world =
  rows :: "string \<rightharpoonup> row"
  faults :: "string option list"
  ticks :: nat
  requests :: "request list"

text \<open>
  The platform, fixed during a call: the two JSON functions (\<open>JSON.parse\<close> throws a
  SyntaxError, here \<open>Inl\<close> with its message, on text that is not JSON; the text of a
  payload is taken to be either no JSON or the JSON of a documentation record), the clock
  (the n-th reading of the current time, in milliseconds), the upstream registry (what
  the n-th request gets) and \<open>process.env.npm_package_version\<close>. The calls of the
  logger are left out: they write to the standard error stream and do not throw.
\<close>

record env =
  JSON_stringify :: "NpmDocumentation \<Rightarrow> string"
  JSON_parse :: "string \<Rightarrow> string + NpmDocumentation"
  clock :: "nat \<Rightarrow> int"
  axios_get :: "nat \<Rightarrow> request \<Rightarrow> axios_result"
  npm_package_version :: "string option"

definition db_call :: "world \<Rightarrow> string option \<times> world" where
  "db_call w = (case faults w of [] \<Rightarrow> (None, w) | f # fs \<Rightarrow> (f, w\<lparr>faults := fs\<rparr>))"

definition Date_now :: "env \<Rightarrow> world \<Rightarrow> int \<times> world" where
  "Date_now E w = (clock E (ticks w), w\<lparr>ticks := Suc (ticks w)\<rparr>)"

text \<open>
  \<open>new Date(value)\<close> clips: a time value beyond 8.64e15 ms on either side of the epoch,
  or NaN, gives an Invalid Date. \<open>toISOString\<close> throws a RangeError on an Invalid Date;
  the text it returns otherwise only reaches the log.
\<close>

definition newDate :: "int option \<Rightarrow> Date" where
  "newDate v = (case v of None \<Rightarrow> None
     | Some t \<Rightarrow> if \<bar>t\<bar> \<le> 8640000000000000 then Some t else None)"

definition getTime :: "Date \<Rightarrow> int option" where
  "getTime d = d"

definition toISOString :: "Date \<Rightarrow> error + unit" where
  "toISOString d = (case d of None \<Rightarrow> Inl (RangeError ''Invalid time value'') | Some t \<Rightarrow> Inr ())"

section \<open>CacheService\<close>

text \<open>
  \<open>clearCache(packageName?)\<close>: the test \<open>if (packageName)\<close> is false for \<open>undefined\<close>
  and for the empty string, and then every row is deleted. A failure is rethrown as a
  CacheError.
\<close>

definition CacheService_clearCache :: "string option \<Rightarrow> world \<Rightarrow> (error + unit) \<times> world" where
  "CacheService_clearCache pkg w =
     (case pkg of
        Some (c # cs) \<Rightarrow>
          (case db_call w of
             (Some m, w1) \<Rightarrow> (Inl (CacheError (''Cache clear operation failed: '' @ m)), w1)
           | (None, w1) \<Rightarrow>
               (case db_call w1 of
                  (Some m, w2) \<Rightarrow> (Inl (CacheError (''Cache clear operation failed: '' @ m)), w2)
                | (None, w2) \<Rightarrow> (Inr (), w2\<lparr>rows := (rows w2)(c # cs := None)\<rparr>)))
      | _ \<Rightarrow>
          (case db_call w of
             (Some m, w1) \<Rightarrow> (Inl (CacheError (''Cache clear operation failed: '' @ m)), w1)
           | (None, w1) \<Rightarrow>
               (case db_call w1 of
                  (Some m, w2) \<Rightarrow> (Inl (CacheError (''Cache clear operation failed: '' @ m)), w2)
                | (None, w2) \<Rightarrow> (Inr (), w2\<lparr>rows := Map.empty\<rparr>))))"

text \<open>
  \<open>get(packageName)\<close>: a failing \<open>prepare\<close> or \<open>get\<close> is caught and gives \<open>null\<close>; so does
  a missing row. When \<open>JSON.parse\<close> throws, \<open>clearCache(packageName)\<close> is awaited, its
  own failure is swallowed by \<open>.catch\<close>, and \<open>null\<close> is returned.
\<close>

definition CacheService_get :: "env \<Rightarrow> string \<Rightarrow> world \<Rightarrow> CacheEntry option \<times> world" where
  "CacheService_get E pkg w =
     (case db_call w of
        (Some m, w1) \<Rightarrow> (None, w1)
      | (None, w1) \<Rightarrow>
          (case db_call w1 of
             (Some m, w2) \<Rightarrow> (None, w2)
           | (None, w2) \<Rightarrow>
               (case rows w2 pkg of
                  None \<Rightarrow> (None, w2)
                | Some r \<Rightarrow>
                    (case JSON_parse E (col_documentation r) of
                       Inl parseError \<Rightarrow> (None, snd (CacheService_clearCache (Some pkg) w2))
                     | Inr d \<Rightarrow>
                         (Some \<lparr>packageName = pkg, documentation = d,
                                 fetchedAt = newDate (Some (col_fetched_at r)), ttl = col_ttl r\<rparr>, w2)))))"

text \<open>
  \<open>set(packageName, documentation, ttl)\<close>: \<open>prepare\<close>, \<open>Date.now()\<close>, \<open>JSON.stringify\<close>,
  then \<open>run\<close> of INSERT OR REPLACE. A failure is rethrown as a CacheError.
\<close>

definition CacheService_set ::
    "env \<Rightarrow> string \<Rightarrow> NpmDocumentation \<Rightarrow> int \<Rightarrow> world \<Rightarrow> (error + unit) \<times> world" where
  "CacheService_set E pkg doc t w =
     (case db_call w of
        (Some m, w1) \<Rightarrow>
          (Inl (CacheError (''Cache update failed for '' @ pkg @ '': '' @ m)), w1)
      | (None, w1) \<Rightarrow>
          (case Date_now E w1 of
             (now, w2) \<Rightarrow>
               (case db_call w2 of
                  (Some m, w3) \<Rightarrow>
                    (Inl (CacheError (''Cache update failed for '' @ pkg @ '': '' @ m)), w3)
                | (None, w3) \<Rightarrow>
                    (Inr (), w3\<lparr>rows := (rows w3)(pkg \<mapsto>
                       \<lparr>col_documentation = JSON_stringify E doc, col_fetched_at = now,
                        col_ttl = t\<rparr>)\<rparr>))))"

text \<open>
  \<open>isCached(packageName)\<close>: the entry of \<open>get\<close>, the current time, the expiry time
  \<open>new Date(fetchedAt.getTime() + ttl * 1000)\<close> and the comparison \<open>now < expiryTime\<close>
  (false when the expiry time is an Invalid Date). The debug line then formats both dates
  with \<open>toISOString\<close>, whose RangeError is caught and gives \<open>false\<close>.
\<close>

definition CacheService_isCached :: "env \<Rightarrow> string \<Rightarrow> world \<Rightarrow> bool \<times> world" where
  "CacheService_isCached E pkg w =
     (case CacheService_get E pkg w of
        (None, w1) \<Rightarrow> (False, w1)
      | (Some cacheEntry, w1) \<Rightarrow>
          (case Date_now E w1 of
             (now, w2) \<Rightarrow>
               (let expiryTime = newDate (map_option (\<lambda>t. t + ttl cacheEntry * 1000)
                                            (getTime (fetchedAt cacheEntry)));
                    isValid = (case expiryTime of None \<Rightarrow> False | Some x \<Rightarrow> now < x)
                in (case toISOString (fetchedAt cacheEntry) of
                      Inl e \<Rightarrow> (False, w2)
                    | Inr u \<Rightarrow>
                        (case toISOString expiryTime of
                           Inl e \<Rightarrow> (False, w2)
                         | Inr u' \<Rightarrow> (isValid, w2))))))"

section \<open>NpmDocService\<close>

record NpmDocService =
  config :: NpmDocServiceConfig
  npmsApiBaseUrl :: string

text \<open>
  The configuration that ConfigurationManager starts from (the default database path is
  resolved from the place of the compiled file, and is a parameter here; overrides from
  the process environment replace values of the three fields, and the properties below
  hold for every value of them), an override object of the constructor
  (\<open>Partial<NpmDocServiceConfig>\<close>, an absent key is \<open>None\<close>), the spread
  \<open>{ ...defaultConfig, ...(config || {}) }\<close>, and the constructor, which gives the field
  \<open>npmsApiBaseUrl\<close> its initial value. (The constructor also opens the database; a
  failure there is outside the calls studied here.)
\<close>

definition ConfigurationManager_defaults :: "string \<Rightarrow> NpmDocServiceConfig" where
  "ConfigurationManager_defaults defaultDbPath =
     \<lparr>cacheTtl = 86400, dbPath = defaultDbPath, npmRegistry = ''https://registry.npmjs.org''\<rparr>"

record PartialConfig =
  p_cacheTtl :: "int option"
  p_dbPath :: "string option"
  p_npmRegistry :: "string option"

definition spread :: "NpmDocServiceConfig \<Rightarrow> PartialConfig option \<Rightarrow> NpmDocServiceConfig" where
  "spread defaultConfig overrides =
     (case overrides of
        None \<Rightarrow> defaultConfig
      | Some p \<Rightarrow>
          \<lparr>cacheTtl = (case p_cacheTtl p of None \<Rightarrow> cacheTtl defaultConfig | Some v \<Rightarrow> v),
           dbPath = (case p_dbPath p of None \<Rightarrow> dbPath defaultConfig | Some v \<Rightarrow> v),
           npmRegistry = (case p_npmRegistry p of None \<Rightarrow> npmRegistry defaultConfig | Some v \<Rightarrow> v)\<rparr>)"

definition NpmDocService_new :: "NpmDocServiceConfig \<Rightarrow> PartialConfig option \<Rightarrow> NpmDocService" where
  "NpmDocService_new defaultConfig overrides =
     \<lparr>config = spread defaultConfig overrides, npmsApiBaseUrl = ''https://api.npms.io/v2''\<rparr>"

text \<open>
  \<open>encodeURIComponent\<close> on code units below 256: the unreserved characters stay, every
  other code unit is written as the bytes of its UTF-8 form, each as \<open>%\<close> and two
  upper-case hexadecimal digits.
\<close>

definition apostrophe :: char where
  "apostrophe = CHR 0x27"

definition uriUnreserved :: "char \<Rightarrow> bool" where
  "uriUnreserved c =
     (c \<in> set (''ABCDEFGHIJKLMNOPQRSTUVWXYZabcdefghijklmnopqrstuvwxyz0123456789-_.!~*()''
                @ [apostrophe]))"

definition hexDigit :: "nat \<Rightarrow> char" where
  "hexDigit n = ''0123456789ABCDEF'' ! (n mod 16)"

definition percentByte :: "nat \<Rightarrow> string" where
  "percentByte b = [CHR ''%'', hexDigit (b div 16), hexDigit b]"

definition encodeUnit :: "char \<Rightarrow> string" where
  "encodeUnit c =
     (if uriUnreserved c then [c]
      else if (of_char c :: nat) < 128 then percentByte (of_char c)
      else percentByte (192 + of_char c div 64) @ percentByte (128 + of_char c mod 64))"

definition encodeURIComponent :: "string \<Rightarrow> string" where
  "encodeURIComponent s = concat (map encodeUnit s)"

text \<open>A number in a template literal: its decimal digits.\<close>

fun decimal :: "nat \<Rightarrow> string" where
  "decimal n =
     (if n < 10 then [''0123456789'' ! n]
      else decimal (n div 10) @ [''0123456789'' ! (n mod 10)])"

declare decimal.simps [simp del]

text \<open>
  \<open>fetchFromNpmsIO(packageName)\<close>. The request is recorded in \<open>requests\<close>. A response
  without \<open>collected.metadata\<close>, or with an empty \<open>metadata.name\<close>, throws a
  NotFoundError inside the \<open>try\<close>, which the \<open>catch\<close> rethrows as it is.
\<close>

definition fetchFromNpmsIO ::
    "env \<Rightarrow> NpmDocService \<Rightarrow> string \<Rightarrow> world \<Rightarrow> (error + NpmDocumentation) \<times> world" where
  "fetchFromNpmsIO E this pkg w =
     (let req = \<lparr>url = npmsApiBaseUrl this @ ''/package/'' @ encodeURIComponent pkg,
                 header_Accept = ''application/json'',
                 header_User_Agent = ''mcp-npm_docs-server/'' @
                   (case npm_package_version E of Some (c # cs) \<Rightarrow> c # cs | _ \<Rightarrow> ''0.1.0''),
                 timeout = 15000\<rparr>;
          w1 = w\<lparr>requests := requests w @ [req]\<rparr>
      in (case axios_get E (length (requests w)) req of
            Resolved data \<Rightarrow>
              (case Option.bind (Option.bind data r_collected) c_metadata of
                 None \<Rightarrow>
                   (Inl (NotFoundError (''Package '' @ [apostrophe] @ pkg @ [apostrophe] @
                                         '' not found via npms.io.'')), w1)
               | Some md \<Rightarrow>
                   if m_name md = [] then
                     (Inl (NotFoundError (''Package '' @ [apostrophe] @ pkg @ [apostrophe] @
                                           '' not found via npms.io.'')), w1)
                   else
                     (Inr \<lparr>name = m_name md,
                           version = (if m_version md = [] then ''unknown'' else m_version md),
                           description = (case m_description md of Some (c # cs) \<Rightarrow> c # cs | _ \<Rightarrow> []),
                           homepage = Option.bind (m_links md) l_homepage,
                           repository = Option.bind (m_links md) l_repository,
                           author = map_option AuthorName (Option.bind (m_author md) id),
                           license = m_license md,
                           main = None,
                           keywords' = m_keywords md,
                           dependencies = m_dependencies md,
                           devDependencies = m_devDependencies md,
                           readme = (case m_readme md of
                                       Some (c # cs) \<Rightarrow> Some ''README content included via npms.io''
                                     | _ \<Rightarrow> None),
                           readmeContent = m_readme md\<rparr>, w1))
          | AxiosError response sent message \<Rightarrow>
              (case response of
                 Some (status, statusText) \<Rightarrow>
                   if status = 404 then
                     (Inl (NotFoundError (''Package '' @ [apostrophe] @ pkg @ [apostrophe] @
                                           '' not found.'')), w1)
                   else
                     (Inl (NetworkError (''Failed to fetch from npms.io: HTTP '' @ decimal status @
                                          '' '' @ statusText)), w1)
               | None \<Rightarrow>
                   if sent then
                     (Inl (NetworkError (''Network error connecting to npms.io: '' @ message)), w1)
                   else
                     (Inl (Error (''An unexpected error occurred while fetching from npms.io: '' @
                                   message)), w1))
          | OtherError message \<Rightarrow>
              (Inl (Error (''An unexpected error occurred while fetching from npms.io: '' @
                            message)), w1)))"

text \<open>
  \<open>getDocumentation(packageName, forceFresh)\<close>, step 1 (check the cache first, unless
  \<open>forceFresh\<close>): the documentation to return from the cache, if any. Neither \<open>isCached\<close>
  nor \<open>get\<close> throws, so the \<open>catch\<close> around this step has nothing to catch.
\<close>

definition checkCacheFirst ::
    "env \<Rightarrow> string \<Rightarrow> bool \<Rightarrow> world \<Rightarrow> NpmDocumentation option \<times> world" where
  "checkCacheFirst E pkg forceFresh w =
     (if \<not> forceFresh then
        (case CacheService_isCached E pkg w of
           (True, w1) \<Rightarrow>
             (case CacheService_get E pkg w1 of
                (Some cacheEntry, w2) \<Rightarrow> (Some (documentation cacheEntry), w2)
              | (None, w2) \<Rightarrow> (None, w2))
         | (False, w1) \<Rightarrow> (None, w1))
      else (None, w))"

text \<open>
  Steps 2 and 3: fetch, rethrow what the fetch throws, store the fetched documentation
  with the configured TTL, ignore a failure of the store, return the documentation.
\<close>

definition getDocumentation ::
    "env \<Rightarrow> NpmDocService \<Rightarrow> string \<Rightarrow> bool \<Rightarrow> world \<Rightarrow> (error + NpmDocumentation) \<times> world" where
  "getDocumentation E this pkg forceFresh w =
     (case checkCacheFirst E pkg forceFresh w of
        (Some d, w1) \<Rightarrow> (Inr d, w1)
      | (None, w1) \<Rightarrow>
          (case fetchFromNpmsIO E this pkg w1 of
             (Inl fetchError, w2) \<Rightarrow> (Inl fetchError, w2)
           | (Inr docs, w2) \<Rightarrow>
               (case CacheService_set E pkg docs (cacheTtl (config this)) w2 of
                  (r, w3) \<Rightarrow> (Inr docs, w3))))"

section \<open>Notions used by the properties\<close>

text \<open>
  The next \<open>n\<close> calls into the database raise no fault.
\<close>

definition no_fault :: "nat \<Rightarrow> world \<Rightarrow> bool" where
  "no_fault n w = list_all (\<lambda>f. f = None) (take n (faults w))"

text \<open>A time value that a \<open>Date\<close> can hold.\<close>

definition in_Date_range :: "int \<Rightarrow> bool" where
  "in_Date_range t = (\<bar>t\<bar> \<le> 8640000000000000)"

text \<open>
  The specification's validity of an entry: the table has row \<open>r\<close> for the name, and the
  current time (the next reading of the clock) is strictly before \<open>fetchedAt + ttl\<close>,
  the TTL counted in seconds and the times in milliseconds.
\<close>

definition unexpired :: "env \<Rightarrow> world \<Rightarrow> string \<Rightarrow> row \<Rightarrow> bool" where
  "unexpired E w pkg r =
     (rows w pkg = Some r \<and> clock E (ticks w) < col_fetched_at r + col_ttl r * 1000)"

text \<open>The classes of error that \<open>getDocumentation\<close> lets escape.\<close>

definition escapes :: "error + NpmDocumentation \<Rightarrow> bool" where
  "escapes r =
     (case r of
        Inr d \<Rightarrow> True
      | Inl (NotFoundError m) \<Rightarrow> True
      | Inl (NetworkError m) \<Rightarrow> True
      | Inl (Error m) \<Rightarrow> True
      | Inl e \<Rightarrow> False)"

section \<open>A platform, a service and stores for the examples\<close>

text \<open>
  The record that \<open>fetchFromNpmsIO\<close> builds from the body \<open>lodash_body\<close>, and the text
  \<open>JSON.stringify\<close> gives for it. The platform of the examples has the two JSON
  functions given by their values at this record and this text (every other text of
  the examples is no JSON), a clock that starts at 1700000000000 ms and advances by 1 ms per
  reading, and a registry that knows the package lodash and answers 404 for any other
  URL.
\<close>

definition lodash_doc :: NpmDocumentation where
  "lodash_doc =
     \<lparr>name = ''lodash'', version = ''4.17.21'', description = ''Lodash modular utilities.'',
      homepage = Some ''https://lodash.com/'', repository = None, author = None,
      license = Some ''MIT'', main = None, keywords' = None, dependencies = None,
      devDependencies = None, readme = None, readmeContent = None\<rparr>"

definition lodash_json :: string where
  \<open>lodash_json = ''{"name":"lodash","version":"4.17.21","description":"Lodash modular utilities.","homepage":"https://lodash.com/","license":"MIT"}''\<close>

definition lodash_body :: NpmsIOResponse where
  "lodash_body =
     \<lparr>r_collected = Some \<lparr>c_metadata = Some
        \<lparr>m_name = ''lodash'', m_version = ''4.17.21'',
         m_description = Some ''Lodash modular utilities.'', m_keywords = None,
         m_author = None, m_license = Some ''MIT'',
         m_links = Some \<lparr>l_npm = Some ''https://www.npmjs.com/package/lodash'',
                          l_homepage = Some ''https://lodash.com/'',
                          l_repository = None, l_bugs = None\<rparr>,
         m_dependencies = None, m_devDependencies = None, m_readme = None\<rparr>\<rparr>\<rparr>"

definition platform :: env where
  "platform =
     \<lparr>JSON_stringify = (\<lambda>d. if d = lodash_doc then lodash_json else ''null''),
      JSON_parse = (\<lambda>s. if s = lodash_json then Inr lodash_doc
                          else Inl ''Unexpected token in JSON''),
      clock = (\<lambda>n. 1700000000000 + int n),
      axios_get = (\<lambda>n req. if url req = ''https://api.npms.io/v2/package/lodash''
                             then Resolved (Some lodash_body)
                             else AxiosError (Some (404, ''Not Found'')) True
                                    ''Request failed with status code 404''),
      npm_package_version = None\<rparr>"

definition service :: NpmDocService where
  "service = NpmDocService_new (ConfigurationManager_defaults ''/srv/dist/npm-docs-cache.db'') None"

text \<open>
  A store with the given table and faults, before any clock reading and any request; and
  a row for lodash fetched 10 seconds before the clock's first reading.
\<close>

definition store :: "(string \<rightharpoonup> row) \<Rightarrow> string option list \<Rightarrow> world" where
  "store table fs = \<lparr>rows = table, faults = fs, ticks = 0, requests = []\<rparr>"

definition lodash_row :: "int \<Rightarrow> row" where
  "lodash_row t = \<lparr>col_documentation = lodash_json, col_fetched_at = 1699999990000, col_ttl = t\<rparr>"

text \<open>
  The same row with a TTL of 8640000000000 seconds, as \<open>set\<close> writes it when the
  configured TTL is that number: its expiry time lies beyond the last time value a
  \<open>Date\<close> can hold. And a row whose payload is cut off in the middle.
\<close>

definition aeon_row :: row where
  "aeon_row = lodash_row 8640000000000"

definition torn_row :: row where
  \<open>torn_row = \<lparr>col_documentation = ''{"name":"lod'', col_fetched_at = 1699999990000, col_ttl = 11\<rparr>\<close>

section \<open>Properties of CacheService\<close>

lemmas cache_defs = CacheService_get_def CacheService_set_def CacheService_isCached_def
  CacheService_clearCache_def db_call_def Date_now_def newDate_def getTime_def toISOString_def

subsection \<open>The database calls\<close>

lemma db_call_no_fault:
  "no_fault (Suc n) w \<Longrightarrow> db_call w = (None, w\<lparr>faults := tl (faults w)\<rparr>)"
  by (cases "faults w") (simp_all add: db_call_def no_fault_def)

lemma no_fault_drop:
  "no_fault (m + n) w \<Longrightarrow> no_fault n (w\<lparr>faults := drop m (faults w)\<rparr>)"
  by (simp add: no_fault_def take_add)

lemma no_fault_less:
  "no_fault (m + n) w \<Longrightarrow> no_fault m w"
  by (simp add: no_fault_def take_add)

lemma no_fault_ticks [simp]:
  "no_fault n (w\<lparr>ticks := k\<rparr>) = no_fault n w"
  by (simp add: no_fault_def)

subsection \<open>CacheService.get\<close>

lemma get_hit:
  assumes "no_fault 2 w" "rows w pkg = Some r" "JSON_parse E (col_documentation r) = Inr d"
  shows "CacheService_get E pkg w =
           (Some \<lparr>packageName = pkg, documentation = d,
                  fetchedAt = newDate (Some (col_fetched_at r)), ttl = col_ttl r\<rparr>,
            w\<lparr>faults := drop 2 (faults w)\<rparr>)"
proof -
  have two: "no_fault (Suc (Suc 0)) w"
    using assms(1) by (simp add: numeral_2_eq_2)
  have a: "db_call w = (None, w\<lparr>faults := tl (faults w)\<rparr>)"
    using two by (rule db_call_no_fault)
  have "no_fault (Suc 0) (w\<lparr>faults := tl (faults w)\<rparr>)"
    using two no_fault_drop [of 1 "Suc 0" w] by (simp add: drop_Suc)
  then have b: "db_call (w\<lparr>faults := tl (faults w)\<rparr>) = (None, w\<lparr>faults := tl (tl (faults w))\<rparr>)"
    using db_call_no_fault [of 0 "w\<lparr>faults := tl (faults w)\<rparr>"] by simp
  show ?thesis
    using assms(2,3) by (simp add: CacheService_get_def a b numeral_2_eq_2 drop_Suc)
qed

lemma get_requests: "requests (snd (CacheService_get E pkg w)) = requests w"
  by (auto simp: CacheService_get_def CacheService_clearCache_def db_call_def
           split: list.splits option.splits sum.splits prod.splits)

lemma get_ticks: "ticks (snd (CacheService_get E pkg w)) = ticks w"
  by (auto simp: CacheService_get_def CacheService_clearCache_def db_call_def
           split: list.splits option.splits sum.splits prod.splits)

lemma get_rows:
  "rows (snd (CacheService_get E pkg w)) k = rows w k \<or> rows (snd (CacheService_get E pkg w)) k = None"
  by (auto simp: CacheService_get_def CacheService_clearCache_def db_call_def
           split: list.splits option.splits sum.splits prod.splits)

lemma get_Some:
  assumes "fst (CacheService_get E pkg w) = Some e"
  shows "rows (snd (CacheService_get E pkg w)) = rows w
         \<and> (\<exists>r. rows w pkg = Some r \<and> JSON_parse E (col_documentation r) = Inr (documentation e)
                \<and> fetchedAt e = newDate (Some (col_fetched_at r)) \<and> ttl e = col_ttl r
                \<and> packageName e = pkg)"
  using assms
  by (auto simp: CacheService_get_def db_call_def
           split: list.splits option.splits sum.splits prod.splits)

lemma get_wellformed_rows:
  assumes "\<And>r. rows w pkg = Some r \<Longrightarrow> \<exists>d. JSON_parse E (col_documentation r) = Inr d"
  shows "rows (snd (CacheService_get E pkg w)) = rows w"
  using assms
  by (auto simp: CacheService_get_def db_call_def
           split: list.splits option.splits sum.splits prod.splits)

lemma get_corrupted:
  assumes "rows w pkg = Some r" "JSON_parse E (col_documentation r) = Inl m"
  shows "fst (CacheService_get E pkg w) = None"
  using assms
  by (auto simp: CacheService_get_def db_call_def
           split: list.splits option.splits sum.splits prod.splits)

lemma get_absent:
  assumes "rows w pkg = None"
  shows "fst (CacheService_get E pkg w) = None"
  using assms
  by (auto simp: CacheService_get_def db_call_def
           split: list.splits option.splits sum.splits prod.splits)

lemma get_faulty:
  assumes "faults w = Some m # fs \<or> faults w = None # Some m # fs"
  shows "CacheService_get E pkg w = (None, w\<lparr>faults := fs\<rparr>)"
  using assms by (auto simp: CacheService_get_def db_call_def)

subsection \<open>CacheService.isCached\<close>

lemma isCached_eq:
  "fst (CacheService_isCached E pkg w) =
     (case fst (CacheService_get E pkg w) of
        None \<Rightarrow> False
      | Some e \<Rightarrow>
          (case fetchedAt e of
             None \<Rightarrow> False
           | Some f \<Rightarrow> in_Date_range (f + ttl e * 1000) \<and> clock E (ticks w) < f + ttl e * 1000))"
proof (cases "CacheService_get E pkg w")
  case (Pair g w1)
  have "ticks w1 = ticks w"
    using get_ticks [of E pkg w] Pair by simp
  then show ?thesis
    using Pair
    by (simp add: CacheService_isCached_def Date_now_def newDate_def getTime_def toISOString_def
                  in_Date_range_def Let_def split: option.splits)
qed

lemma isCached_True:
  assumes "fst (CacheService_isCached E pkg w)"
  shows "snd (CacheService_isCached E pkg w) =
           (snd (CacheService_get E pkg w))\<lparr>ticks := Suc (ticks w)\<rparr>
         \<and> fst (CacheService_get E pkg w) \<noteq> None"
proof (cases "CacheService_get E pkg w")
  case (Pair g w1)
  have "ticks w1 = ticks w"
    using get_ticks [of E pkg w] Pair by simp
  then show ?thesis
    using Pair assms
    by (simp add: CacheService_isCached_def Date_now_def toISOString_def Let_def
             split: option.splits)
qed

lemma isCached_rows:
  "rows (snd (CacheService_isCached E pkg w)) = rows (snd (CacheService_get E pkg w))"
  by (cases "CacheService_get E pkg w")
     (simp add: CacheService_isCached_def Date_now_def toISOString_def Let_def
           split: option.splits sum.splits)

lemma isCached_requests:
  "requests (snd (CacheService_isCached E pkg w)) = requests w"
  using get_requests [of E pkg w]
  by (cases "CacheService_get E pkg w")
     (simp add: CacheService_isCached_def Date_now_def toISOString_def Let_def
           split: option.splits sum.splits)

text \<open>
  What \<open>isCached\<close> does inside the range of \<open>Date\<close>. Let the row stored for a package
  name, if there is one, have a fetch time and an expiry time \<open>fetched_at + ttl * 1000\<close> that a \<open>Date\<close> can hold. Then
  \<open>isCached\<close> returns true if and only if \<open>get\<close> returns an entry for the name and the
  current time is strictly before the expiry time. In particular, when the database
  answers and the payload parses, the result is the comparison \<open>now < fetched_at + ttl * 1000\<close>
  itself; and when a database call of the read fails, the result is false.
\<close>

theorem isCached_iff_unexpired:
  assumes "\<And>r. rows w pkg = Some r \<Longrightarrow>
             in_Date_range (col_fetched_at r) \<and> in_Date_range (col_fetched_at r + col_ttl r * 1000)"
  shows "fst (CacheService_isCached E pkg w) =
           (fst (CacheService_get E pkg w) \<noteq> None \<and> (\<exists>r. unexpired E w pkg r))
         \<and> (no_fault 2 w \<and> rows w pkg = Some r \<and> JSON_parse E (col_documentation r) = Inr d \<longrightarrow>
              fst (CacheService_isCached E pkg w) =
                (clock E (ticks w) < col_fetched_at r + col_ttl r * 1000))
         \<and> (faults w = Some m # fs \<or> faults w = None # Some m # fs \<longrightarrow>
              \<not> fst (CacheService_isCached E pkg w))"
proof (intro conjI impI)
  show main: "fst (CacheService_isCached E pkg w) =
           (fst (CacheService_get E pkg w) \<noteq> None \<and> (\<exists>r. unexpired E w pkg r))"
  proof (cases "fst (CacheService_get E pkg w)")
    case None
    then show ?thesis by (simp add: isCached_eq)
  next
    case (Some e)
    then obtain r where r: "rows w pkg = Some r" "fetchedAt e = newDate (Some (col_fetched_at r))"
        "ttl e = col_ttl r"
      using get_Some [of E pkg w e] by blast
    have "in_Date_range (col_fetched_at r)" "in_Date_range (col_fetched_at r + col_ttl r * 1000)"
      using assms r(1) by simp_all
    then show ?thesis
      using Some r by (simp add: isCached_eq unexpired_def newDate_def in_Date_range_def)
  qed
  show "fst (CacheService_isCached E pkg w) =
          (clock E (ticks w) < col_fetched_at r + col_ttl r * 1000)"
    if "no_fault 2 w \<and> rows w pkg = Some r \<and> JSON_parse E (col_documentation r) = Inr d"
    using that main get_hit [of w pkg r E d] by (simp add: unexpired_def)
  show "\<not> fst (CacheService_isCached E pkg w)"
    if "faults w = Some m # fs \<or> faults w = None # Some m # fs"
    using that get_faulty [of w m fs E pkg] by (simp add: isCached_eq)
qed

text \<open>
  The boundary: an entry fetched 10 seconds ago is expired with a TTL of 10 seconds and
  valid with a TTL of 11 seconds; with a locked database the answer is false.
\<close>

theorem isCached_iff_unexpired_witness:
  "clock platform 0 = col_fetched_at (lodash_row 10) + 10000
   \<and> \<not> fst (CacheService_isCached platform ''lodash'' (store [''lodash'' \<mapsto> lodash_row 10] []))
   \<and> fst (CacheService_isCached platform ''lodash'' (store [''lodash'' \<mapsto> lodash_row 11] []))
   \<and> \<not> fst (CacheService_isCached platform ''lodash''
              (store [''lodash'' \<mapsto> lodash_row 11] [None, Some ''database is locked'']))"
proof -
  have range10: "\<And>r. rows (store [''lodash'' \<mapsto> lodash_row 10] []) ''lodash'' = Some r \<Longrightarrow>
      in_Date_range (col_fetched_at r) \<and> in_Date_range (col_fetched_at r + col_ttl r * 1000)"
    by (auto simp: store_def lodash_row_def in_Date_range_def)
  have range11: "\<And>r. rows (store [''lodash'' \<mapsto> lodash_row 11] fs) ''lodash'' = Some r \<Longrightarrow>
      in_Date_range (col_fetched_at r) \<and> in_Date_range (col_fetched_at r + col_ttl r * 1000)" for fs
    by (auto simp: store_def lodash_row_def in_Date_range_def)
  have readable: "no_fault 2 (store [''lodash'' \<mapsto> lodash_row t] [])
      \<and> rows (store [''lodash'' \<mapsto> lodash_row t] []) ''lodash'' = Some (lodash_row t)
      \<and> JSON_parse platform (col_documentation (lodash_row t)) = Inr lodash_doc" for t
    by (simp add: store_def lodash_row_def platform_def no_fault_def)
  have "fst (CacheService_isCached platform ''lodash'' (store [''lodash'' \<mapsto> lodash_row 10] []))
        = (clock platform (ticks (store [''lodash'' \<mapsto> lodash_row 10] []))
             < col_fetched_at (lodash_row 10) + col_ttl (lodash_row 10) * 1000)"
    using isCached_iff_unexpired [OF range10, where E = platform and r = "lodash_row 10"
            and d = lodash_doc]
          readable [of 10] by blast
  then have ten: "\<not> fst (CacheService_isCached platform ''lodash'' (store [''lodash'' \<mapsto> lodash_row 10] []))"
    by (simp add: store_def lodash_row_def platform_def)
  have "fst (CacheService_isCached platform ''lodash'' (store [''lodash'' \<mapsto> lodash_row 11] []))
        = (clock platform (ticks (store [''lodash'' \<mapsto> lodash_row 11] []))
             < col_fetched_at (lodash_row 11) + col_ttl (lodash_row 11) * 1000)"
    using isCached_iff_unexpired [OF range11 [of "[]"], where E = platform
            and r = "lodash_row 11" and d = lodash_doc]
          readable [of 11] by blast
  then have eleven: "fst (CacheService_isCached platform ''lodash'' (store [''lodash'' \<mapsto> lodash_row 11] []))"
    by (simp add: store_def lodash_row_def platform_def)
  have "faults (store [''lodash'' \<mapsto> lodash_row 11] [None, Some ''database is locked''])
          = None # Some ''database is locked'' # []"
    by (simp add: store_def)
  then have locked: "\<not> fst (CacheService_isCached platform ''lodash''
              (store [''lodash'' \<mapsto> lodash_row 11] [None, Some ''database is locked'']))"
    using isCached_iff_unexpired [OF range11 [of "[None, Some ''database is locked'']"],
            where E = platform]
    by blast
  have "clock platform 0 = col_fetched_at (lodash_row 10) + 10000"
    by (simp add: platform_def lodash_row_def)
  then show ?thesis
    using ten eleven locked by blast
qed

text \<open>
  Claim C6: \<open>isCached\<close> is to return true if and only if an entry exists and the current
  time is strictly before \<open>fetchedAt + ttl\<close>. The code computes that comparison and
  misses it where the expiry time is beyond the range of \<open>Date\<close>: for the row that \<open>set\<close>
  writes under a TTL of 8640000000000 seconds, the entry exists, the database answers,
  the current time is before \<open>fetched_at + ttl * 1000\<close>, and \<open>isCached\<close> returns false
  (\<open>expiryTime\<close> is an Invalid Date, and \<open>toISOString\<close> in the debug line throws a
  RangeError on it, which the \<open>catch\<close> turns into false).
\<close>

theorem isCached_aeon_divergence:
  "fst (CacheService_get platform ''lodash'' (store [''lodash'' \<mapsto> aeon_row] [])) \<noteq> None
   \<and> unexpired platform (store [''lodash'' \<mapsto> aeon_row] []) ''lodash'' aeon_row
   \<and> \<not> fst (CacheService_isCached platform ''lodash'' (store [''lodash'' \<mapsto> aeon_row] []))"
  by (simp add: platform_def store_def aeon_row_def lodash_row_def unexpired_def cache_defs)

subsection \<open>clearCache and set\<close>

lemma clearCache_faulty:
  assumes "faults w = Some m # fs \<or> faults w = None # Some m # fs"
  shows "CacheService_clearCache p w =
           (Inl (CacheError (''Cache clear operation failed: '' @ m)), w\<lparr>faults := fs\<rparr>)"
  using assms
  by (auto simp: CacheService_clearCache_def db_call_def split: option.splits list.splits)

lemma set_faulty:
  assumes "faults w = Some m # fs \<or> faults w = None # Some m # fs"
  shows "fst (CacheService_set E pkg d t w) =
           Inl (CacheError (''Cache update failed for '' @ pkg @ '': '' @ m))
         \<and> rows (snd (CacheService_set E pkg d t w)) = rows w"
  using assms
  by (auto simp: CacheService_set_def db_call_def Date_now_def)

lemma set_failed_rows:
  assumes "fst (CacheService_set E pkg d t w) = Inl e"
  shows "rows (snd (CacheService_set E pkg d t w)) = rows w"
  using assms
  by (auto simp: CacheService_set_def db_call_def Date_now_def split: list.splits option.splits)

lemma set_ok:
  assumes "no_fault 2 w"
  shows "CacheService_set E pkg d t w =
           (Inr (), w\<lparr>faults := drop 2 (faults w), ticks := Suc (ticks w),
                      rows := (rows w)(pkg \<mapsto> \<lparr>col_documentation = JSON_stringify E d,
                                                col_fetched_at = clock E (ticks w),
                                                col_ttl = t\<rparr>)\<rparr>)"
proof -
  have two: "no_fault (Suc (Suc 0)) w"
    using assms by (simp add: numeral_2_eq_2)
  have a: "db_call w = (None, w\<lparr>faults := tl (faults w)\<rparr>)"
    using two by (rule db_call_no_fault)
  have "no_fault (Suc 0) (w\<lparr>faults := tl (faults w), ticks := Suc (ticks w)\<rparr>)"
    using two no_fault_drop [of 1 "Suc 0" w] by (simp add: drop_Suc)
  then have b: "db_call (w\<lparr>faults := tl (faults w), ticks := Suc (ticks w)\<rparr>) =
      (None, w\<lparr>faults := tl (tl (faults w)), ticks := Suc (ticks w)\<rparr>)"
    using db_call_no_fault [of 0 "w\<lparr>faults := tl (faults w), ticks := Suc (ticks w)\<rparr>"] by simp
  show ?thesis
    by (simp add: CacheService_set_def a b Date_now_def numeral_2_eq_2 drop_Suc)
qed

text \<open>
  Claim C5, as amended. When the first or the second call into the database fails,
  \<open>get\<close> returns \<open>null\<close> and \<open>isCached\<close> returns false, neither raises, and the table
  is as before; \<open>set\<close> and \<open>clearCache\<close> both report the failure to their caller as a
  CacheError that carries the message of the database.
\<close>

theorem store_failure_semantics:
  assumes "faults w = Some m # fs \<or> faults w = None # Some m # fs"
  shows "CacheService_get E pkg w = (None, w\<lparr>faults := fs\<rparr>)
         \<and> fst (CacheService_isCached E pkg w) = False
         \<and> rows (snd (CacheService_isCached E pkg w)) = rows w
         \<and> fst (CacheService_set E pkg d t w) =
             Inl (CacheError (''Cache update failed for '' @ pkg @ '': '' @ m))
         \<and> rows (snd (CacheService_set E pkg d t w)) = rows w
         \<and> CacheService_clearCache p w =
             (Inl (CacheError (''Cache clear operation failed: '' @ m)), w\<lparr>faults := fs\<rparr>)"
proof -
  have g: "CacheService_get E pkg w = (None, w\<lparr>faults := fs\<rparr>)"
    using assms by (rule get_faulty)
  have "fst (CacheService_isCached E pkg w) = False"
    using g by (simp add: isCached_eq)
  moreover have "rows (snd (CacheService_isCached E pkg w)) = rows w"
    using g by (simp add: isCached_rows)
  ultimately show ?thesis
    using g set_faulty [OF assms] clearCache_faulty [OF assms] by simp
qed

theorem store_failure_semantics_witness:
  "CacheService_get platform ''lodash'' (store [''lodash'' \<mapsto> lodash_row 11] [Some ''disk I/O error''])
     = (None, store [''lodash'' \<mapsto> lodash_row 11] [])
   \<and> \<not> fst (CacheService_isCached platform ''lodash''
            (store [''lodash'' \<mapsto> lodash_row 11] [Some ''disk I/O error'']))
   \<and> fst (CacheService_set platform ''lodash'' lodash_doc 86400
            (store [''lodash'' \<mapsto> lodash_row 11] [Some ''disk I/O error'']))
       = Inl (CacheError ''Cache update failed for lodash: disk I/O error'')
   \<and> CacheService_clearCache None (store [''lodash'' \<mapsto> lodash_row 11] [Some ''disk I/O error''])
       = (Inl (CacheError ''Cache clear operation failed: disk I/O error''),
          store [''lodash'' \<mapsto> lodash_row 11] [])"
proof -
  have f: "faults (store [''lodash'' \<mapsto> lodash_row 11] [Some ''disk I/O error'']) = Some ''disk I/O error'' # []
           \<or> faults (store [''lodash'' \<mapsto> lodash_row 11] [Some ''disk I/O error'']) = None # Some ''disk I/O error'' # []"
    by (simp add: store_def)
  have u: "(store [''lodash'' \<mapsto> lodash_row 11] [Some ''disk I/O error''])\<lparr>faults := []\<rparr>
           = store [''lodash'' \<mapsto> lodash_row 11] []"
    by (simp add: store_def)
  show ?thesis
    using store_failure_semantics [OF f, of platform "''lodash''" lodash_doc 86400 None]
    by (simp add: u)
qed

text \<open>
  Claim C5 as stated fails for \<open>clearCache\<close> (the specification's \<open>invalidate\<close>): a
  failing DELETE is not a no-op for the caller, it raises a CacheError.
\<close>

theorem clearCache_raises_counterexample:
  "fst (CacheService_clearCache (Some ''lodash'')
          (store [''lodash'' \<mapsto> lodash_row 11] [None, Some ''disk I/O error'']))
     = Inl (CacheError ''Cache clear operation failed: disk I/O error'')"
  by (simp add: CacheService_clearCache_def db_call_def store_def)

text \<open>
  Claim C7. When the payload stored for a key does not parse, \<open>get\<close> returns \<open>null\<close>
  (its result type has no error), and a second \<open>get\<close> on the state the first one leaves
  returns \<open>null\<close> as well. The row is gone after the first \<open>get\<close> exactly when the
  database carries out its four calls (SELECT and DELETE, each prepared and run).
\<close>

theorem get_corrupted_self_heals:
  assumes "rows w pkg = Some r" and "JSON_parse E (col_documentation r) = Inl m"
  shows "fst (CacheService_get E pkg w) = None
         \<and> fst (CacheService_get E pkg (snd (CacheService_get E pkg w))) = None
         \<and> (rows (snd (CacheService_get E pkg w)) pkg = None) = no_fault 4 w"
proof (intro conjI)
  show "fst (CacheService_get E pkg w) = None"
    using assms by (rule get_corrupted)
  show "fst (CacheService_get E pkg (snd (CacheService_get E pkg w))) = None"
  proof (cases "rows (snd (CacheService_get E pkg w)) pkg")
    case None
    then show ?thesis by (rule get_absent)
  next
    case (Some r')
    then have "rows (snd (CacheService_get E pkg w)) pkg = Some r"
      using get_rows [of E pkg w pkg] assms(1) by simp
    then show ?thesis using assms(2) by (rule get_corrupted)
  qed
  show "(rows (snd (CacheService_get E pkg w)) pkg = None) = no_fault 4 w"
  proof (cases "no_fault 4 w")
    case False
    have "rows (snd (CacheService_get E pkg w)) pkg = Some r"
      using assms False
      by (auto simp: CacheService_get_def CacheService_clearCache_def db_call_def no_fault_def
                     eval_nat_numeral
               split: list.splits option.splits)
    then show ?thesis
      using False by simp
  next
    case nf: True
    have four: "no_fault (Suc (Suc (Suc (Suc 0)))) w"
      using nf by (simp add: eval_nat_numeral)
    define w1 where "w1 = w\<lparr>faults := tl (faults w)\<rparr>"
    define w2 where "w2 = w1\<lparr>faults := tl (faults w1)\<rparr>"
    define w3 where "w3 = w2\<lparr>faults := tl (faults w2)\<rparr>"
    define w4 where "w4 = w3\<lparr>faults := tl (faults w3)\<rparr>"
    have n1: "no_fault (Suc (Suc (Suc 0))) w1"
      using four no_fault_drop [of 1 "Suc (Suc (Suc 0))" w] by (simp add: w1_def drop_Suc)
    have n2: "no_fault (Suc (Suc 0)) w2"
      using n1 no_fault_drop [of 1 "Suc (Suc 0)" w1] by (simp add: w2_def drop_Suc)
    have n3: "no_fault (Suc 0) w3"
      using n2 no_fault_drop [of 1 "Suc 0" w2] by (simp add: w3_def drop_Suc)
    have c1: "db_call w = (None, w1)"
      unfolding w1_def using four by (rule db_call_no_fault)
    have c2: "db_call w1 = (None, w2)"
      unfolding w2_def using n1 by (rule db_call_no_fault)
    have c3: "db_call w2 = (None, w3)"
      unfolding w3_def using n2 by (rule db_call_no_fault)
    have c4: "db_call w3 = (None, w4)"
      unfolding w4_def using n3 by (rule db_call_no_fault)
    have r2: "rows w2 = rows w"
      by (simp add: w2_def w1_def)
    have r4: "rows w4 = rows w"
      by (simp add: w4_def w3_def w2_def w1_def)
    have "rows (snd (CacheService_get E pkg w)) pkg = None"
      using assms r2 r4
      by (simp add: CacheService_get_def CacheService_clearCache_def c1 c2 c3 c4
               split: list.splits)
    then show ?thesis
      using nf by simp
  qed
qed

theorem get_corrupted_self_heals_witness:
  "fst (CacheService_get platform ''lodash''
          (store [''lodash'' \<mapsto> torn_row] [])) = None
   \<and> rows (snd (CacheService_get platform ''lodash''
          (store [''lodash'' \<mapsto> torn_row] [])))
        ''lodash'' = None
   \<and> fst (CacheService_get platform ''lodash'' (snd (CacheService_get platform ''lodash''
          (store [''lodash'' \<mapsto> torn_row] [])))) = None"
proof -
  let ?w = "store [''lodash'' \<mapsto> torn_row] []"
  have a: "rows ?w ''lodash'' = Some (torn_row)"
    by (simp add: store_def)
  have b: "JSON_parse platform (col_documentation (torn_row))
             = Inl ''Unexpected token in JSON''"
    by (simp add: platform_def lodash_json_def torn_row_def)
  have c: "no_fault 4 ?w"
    by (simp add: no_fault_def store_def)
  show ?thesis
    using get_corrupted_self_heals [OF a b] c by blast
qed

text \<open>
  When the DELETE itself fails, the failure is swallowed: \<open>get\<close> still returns \<open>null\<close>,
  and the row stays.
\<close>

lemma failing_delete_example:
  "CacheService_get platform ''lodash''
     (store [''lodash'' \<mapsto> torn_row] [None, None, None, Some ''database is locked''])
   = (None, store [''lodash'' \<mapsto> torn_row] [])"
  by (simp add: CacheService_get_def CacheService_clearCache_def db_call_def platform_def
                store_def torn_row_def lodash_json_def)

text \<open>
  Claim C8. For every record \<open>d\<close> that \<open>JSON.parse\<close> reads back from the text
  \<open>JSON.stringify\<close> gives it, every TTL \<open>t\<close> and every package name: when the database
  carries out the calls, \<open>set(name, d, t)\<close> succeeds and \<open>get(name)\<close> right after it returns
  an entry with documentation \<open>d\<close> and TTL \<open>t\<close> (and the time of the write as \<open>fetchedAt\<close>).
\<close>

theorem set_get_roundtrip:
  assumes "no_fault 4 w" and "JSON_parse E (JSON_stringify E d) = Inr d"
  shows "fst (CacheService_set E pkg d t w) = Inr ()
         \<and> fst (CacheService_get E pkg (snd (CacheService_set E pkg d t w))) =
             Some \<lparr>packageName = pkg, documentation = d,
                   fetchedAt = newDate (Some (clock E (ticks w))), ttl = t\<rparr>"
proof -
  let ?r = "\<lparr>col_documentation = JSON_stringify E d, col_fetched_at = clock E (ticks w),
            col_ttl = t\<rparr>"
  let ?w = "w\<lparr>faults := drop 2 (faults w), ticks := Suc (ticks w),
               rows := (rows w)(pkg \<mapsto> ?r)\<rparr>"
  have "no_fault (2 + 2) w"
    using assms(1) by simp
  then have a: "no_fault 2 w" and b: "no_fault 2 (w\<lparr>faults := drop 2 (faults w)\<rparr>)"
    using no_fault_less [of 2 2 w] no_fault_drop [of 2 2 w] by simp_all
  have s: "CacheService_set E pkg d t w = (Inr (), ?w)"
    using a by (rule set_ok)
  have n: "no_fault 2 ?w"
    using b by (simp add: no_fault_def)
  have r: "rows ?w pkg = Some ?r"
    by simp
  have p: "JSON_parse E (col_documentation ?r) = Inr d"
    using assms(2) by simp
  have "fst (CacheService_get E pkg ?w) =
          Some \<lparr>packageName = pkg, documentation = d,
                fetchedAt = newDate (Some (col_fetched_at ?r)), ttl = col_ttl ?r\<rparr>"
    using get_hit [OF n r p] by simp
  then show ?thesis
    by (simp add: s)
qed

theorem set_get_roundtrip_witness:
  "JSON_parse platform (JSON_stringify platform lodash_doc) = Inr lodash_doc
   \<and> fst (CacheService_get platform ''lodash''
           (snd (CacheService_set platform ''lodash'' lodash_doc 86400 (store Map.empty [])))) =
       Some \<lparr>packageName = ''lodash'', documentation = lodash_doc,
             fetchedAt = Some 1700000000000, ttl = 86400\<rparr>"
proof -
  have a: "no_fault 4 (store Map.empty [])"
    by (simp add: no_fault_def store_def)
  have b: "JSON_parse platform (JSON_stringify platform lodash_doc) = Inr lodash_doc"
    by (simp add: platform_def)
  have c: "newDate (Some (clock platform (ticks (store Map.empty [])))) = Some 1700000000000"
    by (simp add: newDate_def platform_def store_def)
  show ?thesis
    using set_get_roundtrip [OF a b, of "''lodash''" 86400] b c by simp
qed


section \<open>Properties of NpmDocService\<close>

subsection \<open>fetchFromNpmsIO\<close>

lemma fetch_world:
  "snd (fetchFromNpmsIO E this pkg w) =
     w\<lparr>requests := requests w @
        [\<lparr>url = npmsApiBaseUrl this @ ''/package/'' @ encodeURIComponent pkg,
          header_Accept = ''application/json'',
          header_User_Agent = ''mcp-npm_docs-server/'' @
            (case npm_package_version E of Some (c # cs) \<Rightarrow> c # cs | _ \<Rightarrow> ''0.1.0''),
          timeout = 15000\<rparr>]\<rparr>"
  by (simp add: fetchFromNpmsIO_def Let_def split: axios_result.splits option.splits prod.splits)

lemma fetch_rows: "rows (snd (fetchFromNpmsIO E this pkg w)) = rows w"
  by (simp add: fetch_world)

lemma fetch_escapes: "escapes (fst (fetchFromNpmsIO E this pkg w))"
  by (simp add: fetchFromNpmsIO_def escapes_def Let_def
           split: axios_result.splits option.splits prod.splits)

lemma fetch_status:
  assumes "axios_get E (length (requests w)) (last (requests (snd (fetchFromNpmsIO E this pkg w))))
             = AxiosError (Some (status, statusText)) sent message"
  shows "fst (fetchFromNpmsIO E this pkg w) =
           Inl (if status = 404
                then NotFoundError (''Package '' @ [apostrophe] @ pkg @ [apostrophe] @ '' not found.'')
                else NetworkError (''Failed to fetch from npms.io: HTTP '' @ decimal status @
                                   '' '' @ statusText))"
  using assms by (simp add: fetch_world) (simp add: fetchFromNpmsIO_def Let_def)

lemma fetch_no_response:
  assumes "axios_get E (length (requests w)) (last (requests (snd (fetchFromNpmsIO E this pkg w))))
             = AxiosError None True message"
  shows "fst (fetchFromNpmsIO E this pkg w) =
           Inl (NetworkError (''Network error connecting to npms.io: '' @ message))"
  using assms by (simp add: fetch_world) (simp add: fetchFromNpmsIO_def Let_def)

subsection \<open>Step 1 of getDocumentation\<close>

lemma check_requests: "requests (snd (checkCacheFirst E pkg forceFresh w)) = requests w"
proof (cases "CacheService_isCached E pkg w")
  case (Pair c w1)
  then have "requests w1 = requests w"
    using isCached_requests [of E pkg w] by simp
  then show ?thesis
    using Pair get_requests [of E pkg w1]
    by (auto simp: checkCacheFirst_def split: prod.splits option.splits bool.splits)
qed

lemma check_rows:
  "rows (snd (checkCacheFirst E pkg forceFresh w)) k = rows w k
   \<or> rows (snd (checkCacheFirst E pkg forceFresh w)) k = None"
proof (cases "CacheService_isCached E pkg w")
  case (Pair c w1)
  then have a: "rows w1 k = rows w k \<or> rows w1 k = None"
    using isCached_rows [of E pkg w] get_rows [of E pkg w k] by simp
  have b: "rows (snd (CacheService_get E pkg w1)) k = rows w1 k
           \<or> rows (snd (CacheService_get E pkg w1)) k = None"
    by (rule get_rows)
  show ?thesis
    using Pair a b
    by (auto simp: checkCacheFirst_def split: prod.splits option.splits bool.splits)
qed

lemma check_wellformed:
  assumes "forceFresh \<or> rows w pkg = None
           \<or> (\<exists>r d. rows w pkg = Some r \<and> JSON_parse E (col_documentation r) = Inr d)"
  shows "rows (snd (checkCacheFirst E pkg forceFresh w)) = rows w"
proof (cases forceFresh)
  case True
  then show ?thesis by (simp add: checkCacheFirst_def)
next
  case False
  have wf: "\<And>r. rows w pkg = Some r \<Longrightarrow> \<exists>d. JSON_parse E (col_documentation r) = Inr d"
    using assms False by auto
  obtain c w1 where c: "CacheService_isCached E pkg w = (c, w1)"
    by (cases "CacheService_isCached E pkg w")
  have r1: "rows w1 = rows w"
    using c isCached_rows [of E pkg w] get_wellformed_rows [of w pkg E] wf by simp
  then have "\<And>r. rows w1 pkg = Some r \<Longrightarrow> \<exists>d. JSON_parse E (col_documentation r) = Inr d"
    using wf by simp
  then have "rows (snd (CacheService_get E pkg w1)) = rows w1"
    by (rule get_wellformed_rows)
  then show ?thesis
    using c r1 False
    by (auto simp: checkCacheFirst_def split: prod.splits option.splits bool.splits)
qed

lemma check_hit:
  assumes "unexpired E w pkg r" and "in_Date_range (col_fetched_at r)"
      and "in_Date_range (col_fetched_at r + col_ttl r * 1000)"
      and "JSON_parse E (col_documentation r) = Inr d" and "no_fault 4 w"
  shows "checkCacheFirst E pkg False w =
           (Some d, w\<lparr>faults := drop 4 (faults w), ticks := Suc (ticks w)\<rparr>)"
proof -
  let ?e = "\<lparr>packageName = pkg, documentation = d,
             fetchedAt = newDate (Some (col_fetched_at r)), ttl = col_ttl r\<rparr>"
  let ?w1 = "w\<lparr>faults := drop 2 (faults w)\<rparr>"
  let ?w2 = "?w1\<lparr>ticks := Suc (ticks w)\<rparr>"
  have row: "rows w pkg = Some r" and now: "clock E (ticks w) < col_fetched_at r + col_ttl r * 1000"
    using assms(1) by (simp_all add: unexpired_def)
  have "no_fault (2 + 2) w"
    using assms(5) by simp
  then have a: "no_fault 2 w" and b: "no_fault 2 ?w1"
    using no_fault_less [of 2 2 w] no_fault_drop [of 2 2 w] by simp_all
  have g1: "CacheService_get E pkg w = (Some ?e, ?w1)"
    using a row assms(4) by (rule get_hit)
  have c: "CacheService_isCached E pkg w = (True, ?w2)"
    using assms(2,3) now
    by (simp add: CacheService_isCached_def g1 Date_now_def newDate_def getTime_def
                  toISOString_def in_Date_range_def)
  have b2: "no_fault 2 ?w2"
    using b by simp
  have "rows ?w2 pkg = Some r"
    using row by simp
  with b2 have g2: "CacheService_get E pkg ?w2 = (Some ?e, ?w2\<lparr>faults := drop 2 (faults ?w2)\<rparr>)"
    using assms(4) by (rule get_hit)
  show ?thesis
    by (simp add: checkCacheFirst_def c g2)
qed


lemma check_valid:
  assumes valid: "fst (CacheService_isCached E pkg w)"
      and read: "no_fault 2 (snd (CacheService_isCached E pkg w))"
  shows "\<exists>r d. rows w pkg = Some r \<and> JSON_parse E (col_documentation r) = Inr d
           \<and> checkCacheFirst E pkg False w =
               (Some d, (snd (CacheService_isCached E pkg w))
                          \<lparr>faults := drop 2 (faults (snd (CacheService_isCached E pkg w)))\<rparr>)"
proof -
  define w1 where "w1 = snd (CacheService_isCached E pkg w)"
  have c: "CacheService_isCached E pkg w = (True, w1)"
    using valid by (simp add: w1_def prod_eq_iff)
  obtain e where e: "fst (CacheService_get E pkg w) = Some e"
    using isCached_True [OF valid] by auto
  then obtain r where r: "rows w pkg = Some r"
      and p: "JSON_parse E (col_documentation r) = Inr (documentation e)"
      and same: "rows (snd (CacheService_get E pkg w)) = rows w"
    using get_Some [of E pkg w e] by blast
  have "rows w1 = rows w"
    using same isCached_rows [of E pkg w] by (simp add: w1_def)
  then have r1: "rows w1 pkg = Some r"
    using r by simp
  have n: "no_fault 2 w1"
    using read by (simp add: w1_def)
  have "CacheService_get E pkg w1 =
          (Some \<lparr>packageName = pkg, documentation = documentation e,
                 fetchedAt = newDate (Some (col_fetched_at r)), ttl = col_ttl r\<rparr>,
           w1\<lparr>faults := drop 2 (faults w1)\<rparr>)"
    using n r1 p by (rule get_hit)
  then have "checkCacheFirst E pkg False w = (Some (documentation e), w1\<lparr>faults := drop 2 (faults w1)\<rparr>)"
    by (simp add: checkCacheFirst_def c)
  then show ?thesis
    using r p by (auto simp: w1_def)
qed

text \<open>
  Claim C1, as amended. For every package name whose code units are all below 256 (on
  these \<open>encodeURIComponent\<close> does not throw; a name with a lone surrogate makes it throw
  a URIError before any request, and is outside this model), every configuration and
  every override of it, \<open>fetchFromNpmsIO\<close> sends exactly one request, a GET to
  \<open>https://api.npms.io/v2/package/{urlEncodedPackageName}\<close> with \<open>Accept: application/json\<close>,
  the user agent \<open>mcp-npm_docs-server/{version}\<close> and a timeout of 15000 ms. The base URL
  is the field \<open>npmsApiBaseUrl\<close> that the constructor sets; the \<open>npmRegistry\<close> value of the
  configuration is not read.
\<close>

theorem fetch_request_url:
  "requests (snd (fetchFromNpmsIO E (NpmDocService_new defaultConfig overrides) pkg w)) =
     requests w @
       [\<lparr>url = ''https://api.npms.io/v2/package/'' @ encodeURIComponent pkg,
         header_Accept = ''application/json'',
         header_User_Agent = ''mcp-npm_docs-server/'' @
           (case npm_package_version E of Some (c # cs) \<Rightarrow> c # cs | _ \<Rightarrow> ''0.1.0''),
         timeout = 15000\<rparr>]"
  by (simp add: fetch_world NpmDocService_new_def)

text \<open>
  Claim C1 as stated fails: the service built from the default configuration, whose
  registry URL is \<open>https://registry.npmjs.org\<close>, sends its request for lodash to
  \<open>https://api.npms.io/v2/package/lodash\<close>, and so does a service whose configuration
  names another registry.
\<close>

theorem fetch_ignores_registry_counterexample:
  "npmRegistry (config service) = ''https://registry.npmjs.org''
   \<and> url (last (requests (snd (fetchFromNpmsIO platform service ''lodash'' (store Map.empty [])))))
       = ''https://api.npms.io/v2/package/lodash''
   \<and> url (last (requests (snd (fetchFromNpmsIO platform service ''lodash'' (store Map.empty [])))))
       \<noteq> npmRegistry (config service) @ ''/package/'' @ encodeURIComponent ''lodash''
   \<and> url (last (requests (snd (fetchFromNpmsIO platform
          (NpmDocService_new (ConfigurationManager_defaults ''/srv/dist/npm-docs-cache.db'')
             (Some \<lparr>p_cacheTtl = None, p_dbPath = None,
                     p_npmRegistry = Some ''https://registry.example.org''\<rparr>))
          ''lodash'' (store Map.empty [])))))
       = ''https://api.npms.io/v2/package/lodash''"
  by (simp add: fetch_world service_def NpmDocService_new_def ConfigurationManager_defaults_def
                spread_def store_def encodeURIComponent_def encodeUnit_def uriUnreserved_def)

text \<open>
  The cache-hit path. Let \<open>isCached\<close> report a valid entry for the package name, and
  let the database carry out the read that follows. Then \<open>getDocumentation(name, false)\<close> returns
  the documentation that the stored payload for the name parses to, and the list of
  requests sent is as before: the registry is not called. In terms of the table: when
  the row of the name parses to \<open>d\<close>, the current time is strictly before
  \<open>fetched_at + ttl * 1000\<close>, both times are in the range of \<open>Date\<close> and the database
  carries out the four calls of the two reads, the call returns \<open>d\<close> and sends no request.
\<close>

theorem cache_hit_short_circuit:
  "(fst (CacheService_isCached E pkg w) \<and> no_fault 2 (snd (CacheService_isCached E pkg w)) \<longrightarrow>
      (\<exists>r d. rows w pkg = Some r \<and> JSON_parse E (col_documentation r) = Inr d
         \<and> fst (getDocumentation E this pkg False w) = Inr d
         \<and> requests (snd (getDocumentation E this pkg False w)) = requests w))
   \<and> (unexpired E w pkg r \<and> in_Date_range (col_fetched_at r)
        \<and> in_Date_range (col_fetched_at r + col_ttl r * 1000)
        \<and> JSON_parse E (col_documentation r) = Inr d \<and> no_fault 4 w \<longrightarrow>
      fst (getDocumentation E this pkg False w) = Inr d
      \<and> requests (snd (getDocumentation E this pkg False w)) = requests w)"
proof (intro conjI impI)
  assume valid: "fst (CacheService_isCached E pkg w)
                 \<and> no_fault 2 (snd (CacheService_isCached E pkg w))"
  then obtain r' d' where r: "rows w pkg = Some r'" "JSON_parse E (col_documentation r') = Inr d'"
      and c: "checkCacheFirst E pkg False w =
               (Some d', (snd (CacheService_isCached E pkg w))
                          \<lparr>faults := drop 2 (faults (snd (CacheService_isCached E pkg w)))\<rparr>)"
    using check_valid [of E pkg w] by blast
  have "fst (getDocumentation E this pkg False w) = Inr d'"
    by (simp add: getDocumentation_def c)
  moreover have "requests (snd (getDocumentation E this pkg False w)) = requests w"
    by (simp add: getDocumentation_def c isCached_requests)
  ultimately show "\<exists>r d. rows w pkg = Some r \<and> JSON_parse E (col_documentation r) = Inr d
         \<and> fst (getDocumentation E this pkg False w) = Inr d
         \<and> requests (snd (getDocumentation E this pkg False w)) = requests w"
    using r by blast
next
  assume "unexpired E w pkg r \<and> in_Date_range (col_fetched_at r)
        \<and> in_Date_range (col_fetched_at r + col_ttl r * 1000)
        \<and> JSON_parse E (col_documentation r) = Inr d \<and> no_fault 4 w"
  then have c: "checkCacheFirst E pkg False w =
                  (Some d, w\<lparr>faults := drop 4 (faults w), ticks := Suc (ticks w)\<rparr>)"
    using check_hit [of E w pkg r d] by blast
  show "fst (getDocumentation E this pkg False w) = Inr d"
    by (simp add: getDocumentation_def c)
  show "requests (snd (getDocumentation E this pkg False w)) = requests w"
    by (simp add: getDocumentation_def c)
qed

theorem cache_hit_short_circuit_witness:
  "unexpired platform (store [''lodash'' \<mapsto> lodash_row 11] []) ''lodash'' (lodash_row 11)
   \<and> fst (CacheService_isCached platform ''lodash'' (store [''lodash'' \<mapsto> lodash_row 11] []))
   \<and> fst (getDocumentation platform service ''lodash'' False (store [''lodash'' \<mapsto> lodash_row 11] []))
       = Inr lodash_doc
   \<and> requests (snd (getDocumentation platform service ''lodash'' False
                      (store [''lodash'' \<mapsto> lodash_row 11] []))) = []"
proof -
  let ?w = "store [''lodash'' \<mapsto> lodash_row 11] []"
  have i: "CacheService_isCached platform ''lodash'' ?w = (True, ?w\<lparr>ticks := 1\<rparr>)"
    by (simp add: cache_defs store_def lodash_row_def platform_def)
  have a: "fst (CacheService_isCached platform ''lodash'' ?w)"
    by (simp add: i)
  have u: "unexpired platform ?w ''lodash'' (lodash_row 11)"
    by (simp add: unexpired_def store_def lodash_row_def platform_def)
  have b: "in_Date_range (col_fetched_at (lodash_row 11))"
    and c: "in_Date_range (col_fetched_at (lodash_row 11) + col_ttl (lodash_row 11) * 1000)"
    by (simp_all add: in_Date_range_def lodash_row_def)
  have d: "JSON_parse platform (col_documentation (lodash_row 11)) = Inr lodash_doc"
    by (simp add: platform_def lodash_row_def)
  have e: "no_fault 4 ?w"
    by (simp add: no_fault_def store_def)
  have f: "requests ?w = []"
    by (simp add: store_def)
  have "fst (getDocumentation platform service ''lodash'' False ?w) = Inr lodash_doc
        \<and> requests (snd (getDocumentation platform service ''lodash'' False ?w)) = requests ?w"
    using cache_hit_short_circuit [of platform "''lodash''" ?w service "lodash_row 11" lodash_doc]
          u b c d e by blast
  then show ?thesis
    using a u f by simp
qed

text \<open>
  Claim C2: with \<open>forceFresh\<close> false and a valid (non-expired) entry in the store,
  \<open>getDocumentation\<close> is to return the entry's documentation without calling the
  registry. The code does so whenever \<open>isCached\<close> reports the entry valid (the result
  above), and misses it where \<open>isCached\<close> misses validity: for the row with a TTL of
  8640000000000 seconds the payload parses, the current time is before
  \<open>fetched_at + ttl * 1000\<close> and the database carries out every call, yet the call sends
  a request to the registry and overwrites the row with the fetched record.
\<close>

theorem cache_hit_aeon_divergence:
  "unexpired platform (store [''lodash'' \<mapsto> aeon_row] []) ''lodash'' aeon_row
   \<and> JSON_parse platform (col_documentation aeon_row) = Inr lodash_doc
   \<and> no_fault 4 (store [''lodash'' \<mapsto> aeon_row] [])
   \<and> map url (requests (snd (getDocumentation platform service ''lodash'' False
                             (store [''lodash'' \<mapsto> aeon_row] []))))
       = [''https://api.npms.io/v2/package/lodash'']
   \<and> rows (snd (getDocumentation platform service ''lodash'' False
                   (store [''lodash'' \<mapsto> aeon_row] []))) ''lodash''
       = Some \<lparr>col_documentation = lodash_json, col_fetched_at = 1700000000001,
                col_ttl = 86400\<rparr>"
  by (simp add: getDocumentation_def checkCacheFirst_def fetchFromNpmsIO_def cache_defs
                platform_def service_def NpmDocService_new_def ConfigurationManager_defaults_def
                spread_def store_def aeon_row_def lodash_row_def lodash_body_def lodash_doc_def
                unexpired_def no_fault_def
                encodeURIComponent_def encodeUnit_def uriUnreserved_def)



text \<open>
  Claim C3. When step 1 does not answer from the cache, the fetch succeeds with a
  record and the \<open>set\<close> that follows fails, \<open>getDocumentation\<close> returns the fetched
  record, not an error; the table is then as the fetch found it (the record was not
  stored).
\<close>

theorem write_failure_tolerated:
  assumes "checkCacheFirst E pkg forceFresh w = (None, w1)"
      and "fetchFromNpmsIO E this pkg w1 = (Inr docs, w2)"
      and "fst (CacheService_set E pkg docs (cacheTtl (config this)) w2) = Inl e"
  shows "fst (getDocumentation E this pkg forceFresh w) = Inr docs
         \<and> rows (snd (getDocumentation E this pkg forceFresh w)) = rows w2"
proof -
  have "getDocumentation E this pkg forceFresh w =
          (Inr docs, snd (CacheService_set E pkg docs (cacheTtl (config this)) w2))"
    using assms(1,2) by (simp add: getDocumentation_def split: prod.splits)
  moreover have "rows (snd (CacheService_set E pkg docs (cacheTtl (config this)) w2)) = rows w2"
    using assms(3) by (rule set_failed_rows)
  ultimately show ?thesis
    by simp
qed

theorem write_failure_tolerated_witness:
  "fst (CacheService_set platform ''lodash'' lodash_doc (cacheTtl (config service))
          (snd (fetchFromNpmsIO platform service ''lodash''
                  (store Map.empty [Some ''database or disk is full'']))))
     = Inl (CacheError ''Cache update failed for lodash: database or disk is full'')
   \<and> fst (getDocumentation platform service ''lodash'' True
            (store Map.empty [Some ''database or disk is full''])) = Inr lodash_doc"
proof -
  let ?w = "store Map.empty [Some ''database or disk is full'']"
  have a: "checkCacheFirst platform ''lodash'' True ?w = (None, ?w)"
    by (simp add: checkCacheFirst_def)
  have "fst (fetchFromNpmsIO platform service ''lodash'' ?w) = Inr lodash_doc"
    by (simp add: fetchFromNpmsIO_def platform_def service_def NpmDocService_new_def store_def
                  lodash_body_def lodash_doc_def encodeURIComponent_def encodeUnit_def
                  uriUnreserved_def)
  then have b: "fetchFromNpmsIO platform service ''lodash'' ?w =
                  (Inr lodash_doc, snd (fetchFromNpmsIO platform service ''lodash'' ?w))"
    by (simp add: prod_eq_iff)
  have c: "fst (CacheService_set platform ''lodash'' lodash_doc (cacheTtl (config service))
                  (snd (fetchFromNpmsIO platform service ''lodash'' ?w)))
             = Inl (CacheError ''Cache update failed for lodash: database or disk is full'')"
    by (simp add: fetch_world CacheService_set_def db_call_def store_def)
  show ?thesis
    using write_failure_tolerated [OF a b c] c by blast
qed

text \<open>
  Claim C4, as amended. When step 1 does not answer from the cache and the fetch fails
  with an error, \<open>getDocumentation\<close> fails with that same error, the table at the end
  is the table that step 1 left, and no row is created or overwritten: every row of
  the table afterwards was there before the call, unchanged. When the
  call bypasses the cache, or the name has no row, or its payload parses, the table is
  unchanged altogether. A 404 of the registry gives a NotFoundError, any other status a
  NetworkError with the status, and a request without response a NetworkError.
\<close>

theorem fetch_error_propagates:
  assumes "checkCacheFirst E pkg forceFresh w = (None, w1)"
      and "fetchFromNpmsIO E this pkg w1 = (Inl e, w2)"
  shows "getDocumentation E this pkg forceFresh w = (Inl e, w2)
         \<and> rows w2 = rows w1
         \<and> (\<forall>k. rows w2 k = rows w k \<or> rows w2 k = None)
         \<and> (forceFresh \<or> rows w pkg = None
              \<or> (\<exists>r d. rows w pkg = Some r \<and> JSON_parse E (col_documentation r) = Inr d)
             \<longrightarrow> rows w2 = rows w)
         \<and> (\<forall>status statusText sent message.
               axios_get E (length (requests w)) (last (requests w2))
                 = AxiosError (Some (status, statusText)) sent message \<longrightarrow>
               e = (if status = 404
                    then NotFoundError (''Package '' @ [apostrophe] @ pkg @ [apostrophe] @
                                        '' not found.'')
                    else NetworkError (''Failed to fetch from npms.io: HTTP '' @ decimal status @
                                       '' '' @ statusText)))
         \<and> (\<forall>message.
               axios_get E (length (requests w)) (last (requests w2)) = AxiosError None True message \<longrightarrow>
               e = NetworkError (''Network error connecting to npms.io: '' @ message))"
proof (intro conjI allI impI)
  have w1: "w1 = snd (checkCacheFirst E pkg forceFresh w)"
    using assms(1) by simp
  have w2: "w2 = snd (fetchFromNpmsIO E this pkg w1)" and e: "fst (fetchFromNpmsIO E this pkg w1) = Inl e"
    using assms(2) by simp_all
  have rows2: "rows w2 = rows w1"
    using w2 by (simp add: fetch_rows)
  have req1: "requests w1 = requests w"
    using w1 by (simp add: check_requests)
  show "getDocumentation E this pkg forceFresh w = (Inl e, w2)"
    using assms by (simp add: getDocumentation_def)
  show "rows w2 = rows w1"
    by (rule rows2)
  show "rows w2 k = rows w k \<or> rows w2 k = None" for k
    using check_rows [of E pkg forceFresh w k] w1 rows2 by simp
  show "rows w2 = rows w"
    if "forceFresh \<or> rows w pkg = None
        \<or> (\<exists>r d. rows w pkg = Some r \<and> JSON_parse E (col_documentation r) = Inr d)"
    using check_wellformed [OF that] w1 rows2 by simp
  show "e = (if status = 404
             then NotFoundError (''Package '' @ [apostrophe] @ pkg @ [apostrophe] @ '' not found.'')
             else NetworkError (''Failed to fetch from npms.io: HTTP '' @ decimal status @
                                '' '' @ statusText))"
    if "axios_get E (length (requests w)) (last (requests w2))
          = AxiosError (Some (status, statusText)) sent message"
    for status statusText sent message
    using that fetch_status [of E w1 this pkg status statusText sent message] e w2 req1 by simp
  show "e = NetworkError (''Network error connecting to npms.io: '' @ message)"
    if "axios_get E (length (requests w)) (last (requests w2)) = AxiosError None True message"
    for message
    using that fetch_no_response [of E w1 this pkg message] e w2 req1 by simp
qed

theorem fetch_error_propagates_witness:
  "fst (getDocumentation platform service ''left-pad-xyz-missing'' False (store Map.empty []))
     = Inl (NotFoundError (''Package '' @ [apostrophe] @ ''left-pad-xyz-missing'' @ [apostrophe] @
                           '' not found.''))
   \<and> rows (snd (getDocumentation platform service ''left-pad-xyz-missing'' False
                   (store Map.empty []))) = Map.empty"
proof -
  let ?w = "store Map.empty []"
  let ?e = "NotFoundError (''Package '' @ [apostrophe] @ ''left-pad-xyz-missing'' @ [apostrophe] @
                           '' not found.'')"
  have a: "checkCacheFirst platform ''left-pad-xyz-missing'' False ?w = (None, ?w)"
    by (simp add: checkCacheFirst_def CacheService_isCached_def CacheService_get_def db_call_def
                  store_def)
  have "fst (fetchFromNpmsIO platform service ''left-pad-xyz-missing'' ?w) = Inl ?e"
    by (simp add: fetchFromNpmsIO_def platform_def service_def NpmDocService_new_def store_def
                  encodeURIComponent_def encodeUnit_def uriUnreserved_def)
  then have b: "fetchFromNpmsIO platform service ''left-pad-xyz-missing'' ?w =
                  (Inl ?e, snd (fetchFromNpmsIO platform service ''left-pad-xyz-missing'' ?w))"
    by (simp add: prod_eq_iff)
  have c: "rows ?w = Map.empty"
    by (simp add: store_def)
  have "getDocumentation platform service ''left-pad-xyz-missing'' False ?w =
          (Inl ?e, snd (fetchFromNpmsIO platform service ''left-pad-xyz-missing'' ?w))
        \<and> (rows ?w ''left-pad-xyz-missing'' = None \<longrightarrow>
            rows (snd (fetchFromNpmsIO platform service ''left-pad-xyz-missing'' ?w)) = rows ?w)"
    using fetch_error_propagates [OF a b] by blast
  then show ?thesis
    using c by simp
qed

text \<open>
  Claim C4 as stated fails in its second half: with an unparsable payload stored for
  the name, the call that ends in the NotFoundError has deleted that row on its way
  (the \<open>get\<close> inside \<open>isCached\<close> removes it), so the cache is not left untouched.
\<close>

theorem fetch_error_touches_cache_counterexample:
  "rows (store [''left-pad-xyz-missing'' \<mapsto> torn_row] []) ''left-pad-xyz-missing'' = Some torn_row
   \<and> fst (getDocumentation platform service ''left-pad-xyz-missing'' False
            (store [''left-pad-xyz-missing'' \<mapsto> torn_row] []))
       = Inl (NotFoundError (''Package '' @ [apostrophe] @ ''left-pad-xyz-missing'' @ [apostrophe] @
                             '' not found.''))
   \<and> rows (snd (getDocumentation platform service ''left-pad-xyz-missing'' False
                   (store [''left-pad-xyz-missing'' \<mapsto> torn_row] [])))
        ''left-pad-xyz-missing'' = None"
  by (simp add: getDocumentation_def checkCacheFirst_def fetchFromNpmsIO_def cache_defs
                platform_def service_def NpmDocService_new_def store_def torn_row_def
                lodash_json_def encodeURIComponent_def encodeUnit_def uriUnreserved_def)

text \<open>
  Claim C9. Whatever the database does during the call, the result of
  \<open>getDocumentation\<close> is a documentation, a NotFoundError, a NetworkError or a plain
  Error; it is never a CacheError.
\<close>

theorem no_CacheError_escapes:
  "escapes (fst (getDocumentation E this pkg forceFresh w))
   \<and> (\<forall>m. fst (getDocumentation E this pkg forceFresh w) \<noteq> Inl (CacheError m))"
proof -
  obtain c w1 where c: "checkCacheFirst E pkg forceFresh w = (c, w1)"
    by (cases "checkCacheFirst E pkg forceFresh w")
  obtain f w2 where f: "fetchFromNpmsIO E this pkg w1 = (f, w2)"
    by (cases "fetchFromNpmsIO E this pkg w1")
  have "escapes f"
    using fetch_escapes [of E this pkg w1] f by simp
  then have "escapes (fst (getDocumentation E this pkg forceFresh w))"
    using c f
    by (auto simp: getDocumentation_def escapes_def split: option.splits sum.splits prod.splits)
  then show ?thesis
    by (auto simp: escapes_def)
qed

text \<open>
  An example: the database is locked when the cache is consulted, and still locked when
  the fetched record is to be stored; the call returns the record.
\<close>

lemma locked_database_example:
  "fst (getDocumentation platform service ''lodash'' False
          (store [''lodash'' \<mapsto> lodash_row 11]
             [Some ''database is locked'', Some ''database is locked'']))
     = Inr lodash_doc
   \<and> rows (snd (getDocumentation platform service ''lodash'' False
          (store [''lodash'' \<mapsto> lodash_row 11]
             [Some ''database is locked'', Some ''database is locked''])))
       = [''lodash'' \<mapsto> lodash_row 11]"
  by (simp add: getDocumentation_def checkCacheFirst_def fetchFromNpmsIO_def cache_defs
                platform_def service_def NpmDocService_new_def ConfigurationManager_defaults_def
                spread_def store_def lodash_body_def lodash_doc_def
                encodeURIComponent_def encodeUnit_def uriUnreserved_def)

end
